theory Spec2Isabelle
  imports Complex_Main "HOL-Library.Log_Nat"
begin

section \<open>Values read from the Notion API\<close>

text \<open>
  \<^verbatim>\<open>Page.properties\<close> has the type \<^verbatim>\<open>dict[str, dict[str, Any]]\<close>: the values two levels
  down are whatever \<^verbatim>\<open>response.json()\<close> produced. A dictionary is an association list
  read with \<open>map_of\<close>. A character is a code point below 256 and a Python float is the
  rational it denotes; text beyond Latin-1 and non-finite floats are outside this model.
\<close>

datatype json =
    JNull
  | JBool bool
  | JInt int
  | JFloat rat
  | JStr string
  | JList "json list"
  | JDict "(string \<times> json) list"

type_synonym pydict = "(string \<times> json) list"

text \<open>
  The exceptions the code can meet. \<open>ValidationError\<close> is pydantic's: it lists, per
  rejected field, the field and pydantic's error type. \<open>RequestException\<close> stands for
  any failure of \<^verbatim>\<open>requests.post\<close>; \<open>StopIteration\<close> is what a mock with an exhausted
  \<^verbatim>\<open>side_effect\<close> list raises.
\<close>

datatype error_type =
    string_type
  | enum_error
  | float_type
  | float_parsing
  | int_type
  | int_parsing
  | int_from_float
  | int_parsing_size

datatype exn =
    AttributeError
  | IndexError
  | KeyError
  | TypeError
  | ValidationError "(string \<times> error_type) list"
  | RequestException
  | StopIteration

text \<open>\<^verbatim>\<open>d.get(key, default)\<close> on a value known to be a dictionary.\<close>

definition dict_get :: "(string \<times> 'v) list \<Rightarrow> string \<Rightarrow> 'v \<Rightarrow> 'v" where
  "dict_get d k dflt = (case map_of d k of None \<Rightarrow> dflt | Some v \<Rightarrow> v)"

text \<open>
  \<^verbatim>\<open>v.get(key, default)\<close> on any value: only a dictionary has the attribute \<^verbatim>\<open>get\<close>.
\<close>

fun py_get :: "json \<Rightarrow> string \<Rightarrow> json \<Rightarrow> exn + json" where
  "py_get (JDict d) k dflt = Inr (dict_get d k dflt)"
| "py_get _ k dflt = Inl AttributeError"

text \<open>
  \<^verbatim>\<open>v[0]\<close> on any value: the first element of a list, the first character of a string;
  an empty sequence raises \<^verbatim>\<open>IndexError\<close>, a dictionary (whose keys are strings) raises
  \<^verbatim>\<open>KeyError\<close>, and \<^verbatim>\<open>None\<close>, booleans and numbers are not subscriptable.
\<close>

fun py_index0 :: "json \<Rightarrow> exn + json" where
  "py_index0 (JList []) = Inl IndexError"
| "py_index0 (JList (x # xs)) = Inr x"
| "py_index0 (JStr []) = Inl IndexError"
| "py_index0 (JStr (c # cs)) = Inr (JStr [c])"
| "py_index0 (JDict d) = Inl KeyError"
| "py_index0 _ = Inl TypeError"

text \<open>
  \<^verbatim>\<open>str.lower\<close> on code points below 256: the letters A to Z and the Latin-1 capitals
  (U+00C0 to U+00DE without the multiplication sign U+00D7) move up by 32.
\<close>

definition lower_char :: "char \<Rightarrow> char" where
  "lower_char c =
     (let n = of_char c :: nat in
      if (65 \<le> n \<and> n \<le> 90) \<or> (192 \<le> n \<and> n \<le> 222 \<and> n \<noteq> 215)
      then char_of (n + 32) else c)"

definition str_lower :: "string \<Rightarrow> string" where
  "str_lower s = map lower_char s"

text \<open>\<^verbatim>\<open>v.lower()\<close> on any value: only a string has the attribute.\<close>

fun py_lower :: "json \<Rightarrow> exn + json" where
  "py_lower (JStr s) = Inr (JStr (str_lower s))"
| "py_lower _ = Inl AttributeError"

text \<open>Sequencing of steps that may raise.\<close>

fun bind_exn :: "exn + 'a \<Rightarrow> ('a \<Rightarrow> exn + 'b) \<Rightarrow> exn + 'b" where
  "bind_exn (Inl e) f = Inl e"
| "bind_exn (Inr v) f = f v"

section \<open>schemas.py\<close>

datatype IngredientType =
    PROTEIN
  | DAIRY
  | FRUIT
  | VEGETABLE
  | GRAIN
  | LEGUME_PULSE
  | BAKING_INGREDIENT
  | CONDIMENT_SAUCE
  | NUT_SEED
  | HERB_SPICE
  | OIL_FAT
  | OTHER

definition IngredientType_members :: "(string \<times> IngredientType) list" where
  "IngredientType_members =
     [(''Protein'', PROTEIN), (''Dairy'', DAIRY), (''Fruit'', FRUIT),
      (''Vegetable'', VEGETABLE), (''Grain'', GRAIN), (''Legume/Pulse'', LEGUME_PULSE),
      (''Baking Ingredient'', BAKING_INGREDIENT), (''Condiment/Sauce'', CONDIMENT_SAUCE),
      (''Nuts/Seeds'', NUT_SEED), (''Herb/Spice'', HERB_SPICE), (''Oil/Fat'', OIL_FAT),
      (''Other'', OTHER)]"

text \<open>\<^verbatim>\<open>IngredientType.__str__\<close>: the member's value.\<close>

fun IngredientType_str :: "IngredientType \<Rightarrow> string" where
  "IngredientType_str PROTEIN = ''Protein''"
| "IngredientType_str DAIRY = ''Dairy''"
| "IngredientType_str FRUIT = ''Fruit''"
| "IngredientType_str VEGETABLE = ''Vegetable''"
| "IngredientType_str GRAIN = ''Grain''"
| "IngredientType_str LEGUME_PULSE = ''Legume/Pulse''"
| "IngredientType_str BAKING_INGREDIENT = ''Baking Ingredient''"
| "IngredientType_str CONDIMENT_SAUCE = ''Condiment/Sauce''"
| "IngredientType_str NUT_SEED = ''Nuts/Seeds''"
| "IngredientType_str HERB_SPICE = ''Herb/Spice''"
| "IngredientType_str OIL_FAT = ''Oil/Fat''"
| "IngredientType_str OTHER = ''Other''"

datatype UnitOfMeasurement = GRAMS

definition UnitOfMeasurement_members :: "(string \<times> UnitOfMeasurement) list" where
  "UnitOfMeasurement_members = [(''grams'', GRAMS)]"

fun UnitOfMeasurement_str :: "UnitOfMeasurement \<Rightarrow> string" where
  "UnitOfMeasurement_str GRAMS = ''grams''"

record Ingredient =
  name :: string
  type :: IngredientType
  units_of_measurement :: UnitOfMeasurement
  calories_per_100g :: rat
  protein_per_100g :: rat
  fat_per_100g :: rat
  carbs_per_100g :: rat
  shelf_life_room :: "int option"
  shelf_life_fridge :: "int option"
  shelf_life_freezer :: "int option"

text \<open>
  \<^verbatim>\<open>Ingredient\<close> is a pydantic model: calling it validates every keyword argument
  against the field's type and raises one \<^verbatim>\<open>ValidationError\<close> that lists every
  rejected field. The rules below are pydantic's (version 2, default lax mode). Which
  strings it reads as a number is left open, as two parameters of the model.
\<close>

record lax_str =
  str_to_float :: "string \<Rightarrow> rat option"
  str_to_int :: "string \<Rightarrow> int option"

text \<open>\<^verbatim>\<open>name: str\<close>: only a string is a string; there is no length constraint.\<close>

fun validate_str :: "json \<Rightarrow> error_type + string" where
  "validate_str (JStr s) = Inr s"
| "validate_str _ = Inl string_type"

text \<open>A \<^verbatim>\<open>StrEnum\<close> field: the input must be the value of a member.\<close>

fun validate_enum :: "(string \<times> 'e) list \<Rightarrow> json \<Rightarrow> error_type + 'e" where
  "validate_enum members (JStr s) =
     (case map_of members s of None \<Rightarrow> Inl enum_error | Some m \<Rightarrow> Inr m)"
| "validate_enum members _ = Inl enum_error"

text \<open>
  \<^verbatim>\<open>float(n)\<close> for a Python integer: the double nearest to \<open>n\<close>, the one with the
  even significand when two are equally near; \<^verbatim>\<open>OverflowError\<close> (here \<open>None\<close>) when
  that would be \<open>2 ^ 1024\<close> or more. With \<open>e\<close> the number of bits of \<open>n\<close> beyond 53,
  \<open>q\<close> is the leading 53 bits and \<open>r\<close> the bits cut off.
\<close>

definition float_of_int :: "int \<Rightarrow> rat option" where
  "float_of_int n =
     (let a = \<bar>n\<bar>;
          e = nat (bitlen a - 53);
          q = a div 2 ^ e;
          r = a mod 2 ^ e;
          m = (if 2 ^ e < 2 * r \<or> (2 * r = 2 ^ e \<and> odd q) then q + 1 else q) * 2 ^ e
      in if 2 ^ 1024 \<le> m then None else Some (of_int (sgn n * m)))"

text \<open>
  \<^verbatim>\<open>float\<close>: a float, an integer that converts to one, a boolean, or a string that reads
  as a number. The integer is converted, so the field holds the double nearest to it.
\<close>

fun validate_float :: "lax_str \<Rightarrow> json \<Rightarrow> error_type + rat" where
  "validate_float cz (JInt n) =
     (case float_of_int n of None \<Rightarrow> Inl float_type | Some r \<Rightarrow> Inr r)"
| "validate_float cz (JFloat r) = Inr r"
| "validate_float cz (JBool b) = Inr (if b then 1 else 0)"
| "validate_float cz (JStr s) =
     (case str_to_float cz s of None \<Rightarrow> Inl float_parsing | Some r \<Rightarrow> Inr r)"
| "validate_float cz _ = Inl float_type"

text \<open>
  \<^verbatim>\<open>int | None\<close>: \<^verbatim>\<open>None\<close> passes through; otherwise an integer, a float without a
  fractional part that lies strictly between \<open>- 2 ^ 63\<close> and \<open>2 ^ 63\<close>, a boolean, or a
  string that reads as an integer.
\<close>

fun validate_optional_int :: "lax_str \<Rightarrow> json \<Rightarrow> error_type + int option" where
  "validate_optional_int cz JNull = Inr None"
| "validate_optional_int cz (JInt n) = Inr (Some n)"
| "validate_optional_int cz (JFloat r) =
     (if of_int \<lfloor>r\<rfloor> \<noteq> r then Inl int_from_float
      else if - (2 ^ 63) < r \<and> r < 2 ^ 63 then Inr (Some \<lfloor>r\<rfloor>)
      else Inl int_parsing_size)"
| "validate_optional_int cz (JBool b) = Inr (Some (if b then 1 else 0))"
| "validate_optional_int cz (JStr s) =
     (case str_to_int cz s of None \<Rightarrow> Inl int_parsing | Some n \<Rightarrow> Inr (Some n))"
| "validate_optional_int cz _ = Inl int_type"

text \<open>The keyword arguments of the call \<^verbatim>\<open>Ingredient(...)\<close>, as raw values.\<close>

record fields =
  f_name :: json
  f_type :: json
  f_units_of_measurement :: json
  f_calories_per_100g :: json
  f_protein_per_100g :: json
  f_fat_per_100g :: json
  f_carbs_per_100g :: json
  f_shelf_life_room :: json
  f_shelf_life_fridge :: json
  f_shelf_life_freezer :: json

definition field_errors :: "string \<Rightarrow> error_type + 'a \<Rightarrow> (string \<times> error_type) list" where
  "field_errors fld r = (case r of Inl e \<Rightarrow> [(fld, e)] | Inr v \<Rightarrow> [])"

definition validation_errors :: "lax_str \<Rightarrow> fields \<Rightarrow> (string \<times> error_type) list" where
  "validation_errors cz f =
     field_errors ''name'' (validate_str (f_name f)) @
     field_errors ''type'' (validate_enum IngredientType_members (f_type f)) @
     field_errors ''units_of_measurement''
       (validate_enum UnitOfMeasurement_members (f_units_of_measurement f)) @
     field_errors ''calories_per_100g'' (validate_float cz (f_calories_per_100g f)) @
     field_errors ''protein_per_100g'' (validate_float cz (f_protein_per_100g f)) @
     field_errors ''fat_per_100g'' (validate_float cz (f_fat_per_100g f)) @
     field_errors ''carbs_per_100g'' (validate_float cz (f_carbs_per_100g f)) @
     field_errors ''shelf_life_room'' (validate_optional_int cz (f_shelf_life_room f)) @
     field_errors ''shelf_life_fridge'' (validate_optional_int cz (f_shelf_life_fridge f)) @
     field_errors ''shelf_life_freezer'' (validate_optional_int cz (f_shelf_life_freezer f))"

text \<open>
  \<^verbatim>\<open>Ingredient(name=..., ...)\<close>: the entity when no field is rejected (\<open>projr\<close> is then
  applied to accepted fields only), the \<^verbatim>\<open>ValidationError\<close> otherwise.
\<close>

definition Ingredient_init :: "lax_str \<Rightarrow> fields \<Rightarrow> exn + Ingredient" where
  "Ingredient_init cz f =
     (if validation_errors cz f = [] then
        Inr \<lparr>name = projr (validate_str (f_name f)),
             type = projr (validate_enum IngredientType_members (f_type f)),
             units_of_measurement =
               projr (validate_enum UnitOfMeasurement_members (f_units_of_measurement f)),
             calories_per_100g = projr (validate_float cz (f_calories_per_100g f)),
             protein_per_100g = projr (validate_float cz (f_protein_per_100g f)),
             fat_per_100g = projr (validate_float cz (f_fat_per_100g f)),
             carbs_per_100g = projr (validate_float cz (f_carbs_per_100g f)),
             shelf_life_room = projr (validate_optional_int cz (f_shelf_life_room f)),
             shelf_life_fridge = projr (validate_optional_int cz (f_shelf_life_fridge f)),
             shelf_life_freezer = projr (validate_optional_int cz (f_shelf_life_freezer f))\<rparr>
      else Inl (ValidationError (validation_errors cz f)))"

section \<open>notion.py\<close>

text \<open>
  Of a \<^verbatim>\<open>Page\<close> the code reads \<^verbatim>\<open>properties\<close> only, and of a
  \<^verbatim>\<open>NotionAPIDatabaseResponse\<close> it reads \<^verbatim>\<open>results\<close>, \<^verbatim>\<open>next_cursor\<close> and
  \<^verbatim>\<open>has_more\<close>; the other fields of the two models are left out.
\<close>

record Page =
  page_id :: string
  properties :: "(string \<times> pydict) list"

record NotionAPIDatabaseResponse =
  results :: "Page list"
  next_cursor :: "string option"
  has_more :: bool

text \<open>
  The three access paths of \<^verbatim>\<open>parse_ingredient_page\<close>.
  \<^verbatim>\<open>properties.get("Name", {}).get("title", [{}])[0].get("text", {}).get("content")\<close>:
\<close>

definition title_content :: "(string \<times> pydict) list \<Rightarrow> exn + json" where
  "title_content props =
     bind_exn (py_index0 (dict_get (dict_get props ''Name'' []) ''title'' (JList [JDict []])))
       (\<lambda>t. bind_exn (py_get t ''text'' (JDict []))
         (\<lambda>x. py_get x ''content'' JNull))"

text \<open>\<^verbatim>\<open>properties.get(key, {}).get("select", {}).get("name")\<close>:\<close>

definition select_name :: "(string \<times> pydict) list \<Rightarrow> string \<Rightarrow> exn + json" where
  "select_name props k =
     py_get (dict_get (dict_get props k []) ''select'' (JDict [])) ''name'' JNull"

text \<open>\<^verbatim>\<open>properties.get(key, {}).get("number")\<close>:\<close>

definition number :: "(string \<times> pydict) list \<Rightarrow> string \<Rightarrow> json" where
  "number props k = dict_get (dict_get props k []) ''number'' JNull"

text \<open>
  Lines 170 to 184 of \<^verbatim>\<open>parse_ingredient_page\<close>: the ten local variables, in the
  order the source assigns them. The seven numbers cannot raise.
\<close>

definition extract_fields :: "Page \<Rightarrow> exn + fields" where
  "extract_fields page =
     (let props = properties page in
      bind_exn (title_content props) (\<lambda>nm.
      bind_exn (select_name props ''Type'') (\<lambda>ty.
      bind_exn (select_name props ''Units of Measurement'') (\<lambda>un.
        Inr \<lparr>f_name = nm, f_type = ty, f_units_of_measurement = un,
             f_calories_per_100g = number props ''Calories per 100g'',
             f_protein_per_100g = number props ''Protein per 100g'',
             f_fat_per_100g = number props ''Fat per 100g'',
             f_carbs_per_100g = number props ''Carbohydrate per 100g'',
             f_shelf_life_room = number props ''Shelf life room'',
             f_shelf_life_fridge = number props ''Shelf life fridge'',
             f_shelf_life_freezer = number props ''Shelf life freezer''\<rparr>))))"

text \<open>
  Lines 185 to 196: the call, whose third argument is
  \<^verbatim>\<open>units_of_measurement.lower()\<close>, evaluated before pydantic sees anything.
\<close>

definition construct :: "lax_str \<Rightarrow> fields \<Rightarrow> exn + Ingredient" where
  "construct cz f =
     bind_exn (py_lower (f_units_of_measurement f))
       (\<lambda>u. Ingredient_init cz (f\<lparr>f_units_of_measurement := u\<rparr>))"

definition parse_ingredient_page :: "lax_str \<Rightarrow> Page \<Rightarrow> exn + Ingredient" where
  "parse_ingredient_page cz page = bind_exn (extract_fields page) (construct cz)"

text \<open>
  What \<^verbatim>\<open>logger.info\<close> receives: the skip message, with the value interpolated for
  \<^verbatim>\<open>page_name\<close>, and the exception.
\<close>

datatype log_record = Skipping_ingredient json | Exception_info exn

text \<open>\<^verbatim>\<open>except (AttributeError, ValidationError)\<close>:\<close>

fun caught :: "exn \<Rightarrow> bool" where
  "caught AttributeError = True"
| "caught (ValidationError errs) = True"
| "caught _ = False"

text \<open>
  The loop of \<^verbatim>\<open>parse_ingredient_data\<close>, over the pages still to visit, with the list
  \<^verbatim>\<open>ingredients\<close> and the log so far. \<^verbatim>\<open>page_name\<close> is computed before the \<^verbatim>\<open>try\<close>,
  so an exception there leaves the function, as does one the handler does not name.
\<close>

fun parse_loop ::
  "lax_str \<Rightarrow> Page list \<Rightarrow> Ingredient list \<Rightarrow> log_record list \<Rightarrow>
   (exn + Ingredient list) \<times> log_record list" where
  "parse_loop cz [] ingredients logged = (Inr ingredients, logged)"
| "parse_loop cz (page # rest) ingredients logged =
     (case title_content (properties page) of
        Inl e \<Rightarrow> (Inl e, logged)
      | Inr page_name \<Rightarrow>
          (case parse_ingredient_page cz page of
             Inr ingredient \<Rightarrow> parse_loop cz rest (ingredients @ [ingredient]) logged
           | Inl e \<Rightarrow>
               if caught e
               then parse_loop cz rest ingredients
                      (logged @ [Skipping_ingredient page_name, Exception_info e])
               else (Inl e, logged)))"

definition parse_ingredient_data ::
  "lax_str \<Rightarrow> Page list \<Rightarrow> (exn + Ingredient list) \<times> log_record list" where
  "parse_ingredient_data cz database_data = parse_loop cz database_data [] []"

text \<open>
  The remote endpoint is a parameter: \<open>post\<close> takes the endpoint's state and the JSON
  payload, and gives the validated response, or the exception that \<^verbatim>\<open>requests.post\<close>,
  \<^verbatim>\<open>response.json()\<close> or the response model raised, with the endpoint's next state.
  The payload has the key \<^verbatim>\<open>start_cursor\<close> only when a cursor is given.
\<close>

record payload =
  page_size :: int
  start_cursor :: "string option"

type_synonym 's endpoint = "'s \<Rightarrow> payload \<Rightarrow> (exn + NotionAPIDatabaseResponse) \<times> 's"

definition get_database_page ::
  "'s endpoint \<Rightarrow> 's \<Rightarrow> int option \<Rightarrow> string option \<Rightarrow>
   (exn + NotionAPIDatabaseResponse) \<times> 's" where
  "get_database_page post s size_arg cursor_arg =
     post s \<lparr>page_size = (case size_arg of None \<Rightarrow> 100 | Some n \<Rightarrow> n),
             start_cursor = cursor_arg\<rparr>"

text \<open>
  The \<^verbatim>\<open>while has_more\<close> loop of \<^verbatim>\<open>get_ingredients_data\<close>, with its three variables.
  Nothing bounds the number of rounds, so the loop is a partial function: \<open>None\<close> is
  the run that never leaves the loop.
\<close>

partial_function (option) pages_loop ::
  "'s endpoint \<Rightarrow> 's \<Rightarrow> Page list \<Rightarrow> bool \<Rightarrow> string option \<Rightarrow>
   ((exn + Page list) \<times> 's) option" where
  "pages_loop post s pages has_more_now cursor =
     (if has_more_now then
        (case get_database_page post s None cursor of
           (Inl e, s') \<Rightarrow> Some (Inl e, s')
         | (Inr page_data, s') \<Rightarrow>
             pages_loop post s' (pages @ results page_data)
               (has_more page_data) (next_cursor page_data))
      else Some (Inr pages, s))"

definition get_ingredients_data ::
  "lax_str \<Rightarrow> 's endpoint \<Rightarrow> 's \<Rightarrow>
   (((exn + Ingredient list) \<times> log_record list) \<times> 's) option" where
  "get_ingredients_data cz post s =
     (case pages_loop post s [] True None of
        None \<Rightarrow> None
      | Some (Inl e, s') \<Rightarrow> Some ((Inl e, []), s')
      | Some (Inr pages, s') \<Rightarrow> Some (parse_ingredient_data cz pages, s'))"

text \<open>
  An endpoint that answers from a list, as the mock with a \<^verbatim>\<open>side_effect\<close> list in the
  tests does, and records every payload it receives.
\<close>

type_synonym script = "(exn + NotionAPIDatabaseResponse) list \<times> payload list"

fun scripted_post :: "script endpoint" where
  "scripted_post ([], calls) pl = (Inl StopIteration, ([], calls @ [pl]))"
| "scripted_post (r # rs, calls) pl = (r, (rs, calls @ [pl]))"

section \<open>Notions used to state the properties\<close>

text \<open>
  A JSON number that a float holds unchanged: a float, or an integer that is a double.
  The value a per-100g field holds for it.
\<close>

fun exact_number :: "json \<Rightarrow> bool" where
  "exact_number (JInt n) = (float_of_int n = Some (of_int n))"
| "exact_number (JFloat r) = True"
| "exact_number _ = False"

fun number_value :: "json \<Rightarrow> rat" where
  "number_value (JInt n) = of_int n"
| "number_value (JFloat r) = r"
| "number_value _ = 0"

text \<open>\<^verbatim>\<open>None\<close> or a JSON integer, and the day count a shelf-life field holds for it.\<close>

fun is_optional_int :: "json \<Rightarrow> bool" where
  "is_optional_int JNull = True"
| "is_optional_int (JInt n) = True"
| "is_optional_int _ = False"

fun optional_int_value :: "json \<Rightarrow> int option" where
  "optional_int_value (JInt n) = Some n"
| "optional_int_value _ = None"

text \<open>
  The shapes the access paths expect: where present, a \<^verbatim>\<open>select\<close> is a dictionary, a
  \<^verbatim>\<open>title\<close> is a list that starts with a dictionary, and the \<^verbatim>\<open>text\<close> of that
  dictionary is a dictionary. A property, or a key in it, may always be missing.
\<close>

fun is_dict :: "json \<Rightarrow> bool" where
  "is_dict (JDict d) = True"
| "is_dict _ = False"

definition select_shaped :: "(string \<times> pydict) list \<Rightarrow> string \<Rightarrow> bool" where
  "select_shaped props k =
     (case map_of props k of
        None \<Rightarrow> True
      | Some p \<Rightarrow> (case map_of p ''select'' of None \<Rightarrow> True | Some v \<Rightarrow> is_dict v))"

definition title_shaped :: "(string \<times> pydict) list \<Rightarrow> bool" where
  "title_shaped props =
     (case map_of props ''Name'' of
        None \<Rightarrow> True
      | Some p \<Rightarrow>
          (case map_of p ''title'' of
             None \<Rightarrow> True
           | Some (JList (JDict t # rest)) \<Rightarrow>
               (case map_of t ''text'' of None \<Rightarrow> True | Some v \<Rightarrow> is_dict v)
           | Some _ \<Rightarrow> False))"

definition well_shaped :: "Page \<Rightarrow> bool" where
  "well_shaped page \<longleftrightarrow>
     title_shaped (properties page) \<and>
     select_shaped (properties page) ''Type'' \<and>
     select_shaped (properties page) ''Units of Measurement''"

text \<open>The ten local variables of \<^verbatim>\<open>parse_ingredient_page\<close>, each with the property it is read from.\<close>

definition known_fields :: "(string \<times> (fields \<Rightarrow> json)) list" where
  "known_fields =
     [(''Name'', f_name), (''Type'', f_type),
      (''Units of Measurement'', f_units_of_measurement),
      (''Calories per 100g'', f_calories_per_100g),
      (''Protein per 100g'', f_protein_per_100g),
      (''Fat per 100g'', f_fat_per_100g),
      (''Carbohydrate per 100g'', f_carbs_per_100g),
      (''Shelf life room'', f_shelf_life_room),
      (''Shelf life fridge'', f_shelf_life_fridge),
      (''Shelf life freezer'', f_shelf_life_freezer)]"

text \<open>The entity a page gives, if it gives one.\<close>

definition entity :: "lax_str \<Rightarrow> Page \<Rightarrow> Ingredient option" where
  "entity cz page = (case parse_ingredient_page cz page of Inl e \<Rightarrow> None | Inr i \<Rightarrow> Some i)"

text \<open>The payload \<^verbatim>\<open>get_ingredients_data\<close> sends for a cursor.\<close>

definition request :: "string option \<Rightarrow> payload" where
  "request c = \<lparr>page_size = 100, start_cursor = c\<rparr>"

section \<open>Test data\<close>

text \<open>The two pages of the fixture in \<^verbatim>\<open>tests/unit/test_notion.py\<close>.\<close>

definition chicken :: Page where
  "chicken = \<lparr>page_id = ''page_id_1'', properties =
     [(''Name'', [(''title'', JList [JDict [(''text'', JDict [(''content'', JStr ''Chicken'')])]])]),
      (''Type'', [(''select'', JDict [(''name'', JStr ''Protein'')])]),
      (''Units of Measurement'', [(''select'', JDict [(''name'', JStr ''grams'')])]),
      (''Calories per 100g'', [(''number'', JInt 165)]),
      (''Protein per 100g'', [(''number'', JInt 31)]),
      (''Fat per 100g'', [(''number'', JFloat (18 / 5))]),
      (''Carbohydrate per 100g'', [(''number'', JInt 0)]),
      (''Shelf life room'', [(''number'', JInt 1)]),
      (''Shelf life fridge'', [(''number'', JInt 3)]),
      (''Shelf life freezer'', [(''number'', JInt 90)]),
      (''Substitutions'',
         [(''rich_text'', JList [JDict [(''text'', JDict [(''content'', JStr ''Turkey, Tofu'')])]])])]\<rparr>"

definition rice :: Page where
  "rice = \<lparr>page_id = ''page_id_2'', properties =
     [(''Name'', [(''title'', JList [JDict [(''text'', JDict [(''content'', JStr ''Rice'')])]])]),
      (''Type'', [(''select'', JDict [(''name'', JStr ''Grain'')])]),
      (''Units of Measurement'', [(''select'', JDict [(''name'', JStr ''grams'')])]),
      (''Calories per 100g'', [(''number'', JInt 130)]),
      (''Protein per 100g'', [(''number'', JFloat (27 / 10))]),
      (''Fat per 100g'', [(''number'', JFloat (3 / 10))]),
      (''Carbohydrate per 100g'', [(''number'', JInt 28)]),
      (''Shelf life room'', [(''number'', JInt 365)]),
      (''Shelf life fridge'', [(''number'', JNull)]),
      (''Shelf life freezer'', [(''number'', JNull)])]\<rparr>"

text \<open>A page with one property replaced (or added), and a coercion table that reads no string as a number.\<close>

definition with_property :: "Page \<Rightarrow> string \<Rightarrow> pydict \<Rightarrow> Page" where
  "with_property page k v = page\<lparr>properties := (k, v) # properties page\<rparr>"

definition no_strings :: lax_str where
  "no_strings = \<lparr>str_to_float = (\<lambda>s. None), str_to_int = (\<lambda>s. None)\<rparr>"

text \<open>
  A page without any property; a page whose title is the empty list, as the API gives
  for a page that was never named; and a page whose \<^verbatim>\<open>Type\<close> was never chosen.
\<close>

definition blank :: Page where
  "blank = \<lparr>page_id = ''page_id_3'', properties = []\<rparr>"

definition untitled :: Page where
  "untitled = with_property rice ''Name'' [(''title'', JList [])]"

definition untyped :: Page where
  "untyped = with_property chicken ''Type'' [(''select'', JNull)]"

text \<open>
  A page with one property removed; the chicken page with the unit spelt with capitals,
  with a shelf life of a day and a half, with the empty string as its name, and without
  its unit; and the values \<^verbatim>\<open>parse_ingredient_page\<close> reads from the chicken page.
\<close>

definition without_property :: "Page \<Rightarrow> string \<Rightarrow> Page" where
  "without_property page k = page\<lparr>properties := filter (\<lambda>kv. fst kv \<noteq> k) (properties page)\<rparr>"

definition capital_units :: Page where
  "capital_units =
     with_property chicken ''Units of Measurement'' [(''select'', JDict [(''name'', JStr ''GRAMS'')])]"

definition fractional_shelf_life :: Page where
  "fractional_shelf_life = with_property chicken ''Shelf life room'' [(''number'', JFloat (3 / 2))]"

definition empty_name :: Page where
  "empty_name =
     with_property chicken ''Name''
       [(''title'', JList [JDict [(''text'', JDict [(''content'', JStr [])])]])]"

definition no_units :: Page where
  "no_units = without_property chicken ''Units of Measurement''"

text \<open>An integer beyond the range of a double, and the first integer that is not a double.\<close>

definition huge :: int where
  "huge = 10 ^ 400"

definition beyond_exact :: int where
  "beyond_exact = 2 ^ 53 + 1"

definition chicken_fields :: fields where
  "chicken_fields =
     \<lparr>f_name = JStr ''Chicken'', f_type = JStr ''Protein'',
      f_units_of_measurement = JStr ''grams'',
      f_calories_per_100g = JInt 165, f_protein_per_100g = JInt 31,
      f_fat_per_100g = JFloat (18 / 5), f_carbs_per_100g = JInt 0,
      f_shelf_life_room = JInt 1, f_shelf_life_fridge = JInt 3,
      f_shelf_life_freezer = JInt 90\<rparr>"

definition chicken_ingredient :: Ingredient where
  "chicken_ingredient =
     \<lparr>name = ''Chicken'', type = PROTEIN, units_of_measurement = GRAMS,
      calories_per_100g = 165, protein_per_100g = 31, fat_per_100g = 18 / 5,
      carbs_per_100g = 0, shelf_life_room = Some 1, shelf_life_fridge = Some 3,
      shelf_life_freezer = Some 90\<rparr>"

definition rice_ingredient :: Ingredient where
  "rice_ingredient =
     \<lparr>name = ''Rice'', type = GRAIN, units_of_measurement = GRAMS,
      calories_per_100g = 130, protein_per_100g = 27 / 10, fat_per_100g = 3 / 10,
      carbs_per_100g = 28, shelf_life_room = Some 365, shelf_life_fridge = None,
      shelf_life_freezer = None\<rparr>"

section \<open>Auxiliary facts\<close>

text \<open>
  The conversion of an integer to a float: exact below \<open>2 ^ 53\<close>, an error from
  \<open>2 ^ 1024\<close> on.
\<close>

lemma float_of_int_small: "\<bar>n\<bar> < 2 ^ 53 \<Longrightarrow> float_of_int n = Some (of_int n)"
proof -
  assume a: "\<bar>n\<bar> < 2 ^ 53"
  then have "bitlen \<bar>n\<bar> \<le> 53" by (simp add: bitlen_le_iff_power)
  then have "nat (bitlen \<bar>n\<bar> - 53) = 0" by simp
  moreover have "\<bar>n\<bar> < 2 ^ 1024" using a by (rule less_trans) simp
  moreover have "sgn n * \<bar>n\<bar> = n" by (simp add: sgn_if)
  ultimately show ?thesis by (simp add: float_of_int_def Let_def)
qed

lemma float_of_int_overflow:
  assumes "2 ^ 1024 \<le> \<bar>n\<bar>"
  shows "float_of_int n = None"
proof -
  define a where "a = \<bar>n\<bar>"
  define e where "e = nat (bitlen a - 53)"
  define q where "q = a div 2 ^ e"
  define r where "r = a mod 2 ^ e"
  have a: "(2::int) ^ 1024 \<le> a" using assms by (simp add: a_def)
  then have pos: "0 < a" by (rule less_le_trans [rotated]) simp
  from bitlen_bounds [OF pos]
  have lo: "2 ^ nat (bitlen a - 1) \<le> a" and hi: "a < 2 ^ nat (bitlen a)" by simp_all
  have two: "(1::int) < 2" by simp
  from a hi have "(2::int) ^ 1024 < 2 ^ nat (bitlen a)" by (rule le_less_trans)
  then have "1024 < nat (bitlen a)" by (rule power_less_imp_less_exp [OF two])
  then have b: "1025 \<le> bitlen a" by simp
  then have e: "972 \<le> e" and e52: "nat (bitlen a - 1) = e + 52"
    by (simp_all add: e_def)
  have "(2::int) ^ 52 = 2 ^ (e + 52) div 2 ^ e"
    by (simp add: power_add)
  also have "\<dots> \<le> q"
    unfolding q_def using lo e52 by (simp add: zdiv_mono1)
  finally have q: "2 ^ 52 \<le> q" .
  have "(2::int) ^ 1024 \<le> 2 ^ (52 + e)"
    using e by (intro power_increasing) simp_all
  also have "\<dots> = 2 ^ 52 * 2 ^ e" by (simp add: power_add)
  also have "\<dots> \<le> q * 2 ^ e" using q by (simp add: mult_right_mono)
  finally have m: "2 ^ 1024 \<le> q * 2 ^ e" .
  have "q * 2 ^ e \<le> (q + 1) * 2 ^ e" by (simp add: mult_right_mono)
  with m have m1: "2 ^ 1024 \<le> (q + 1) * 2 ^ e" by (rule order_trans)
  show ?thesis
    using m m1 by (simp add: float_of_int_def Let_def a_def [symmetric] e_def [symmetric]
        q_def [symmetric] r_def [symmetric])
qed

lemma float_of_int_huge: "float_of_int (- huge) = None"
  by (rule float_of_int_overflow) (simp add: huge_def)

lemma float_of_int_beyond_exact: "float_of_int (- beyond_exact) = Some (- (2 ^ 53))"
  unfolding beyond_exact_def by code_simp

text \<open>
  How a sequence of steps ends.
\<close>

lemma bind_exn_Inr_iff: "bind_exn m f = Inr y \<longleftrightarrow> (\<exists>v. m = Inr v \<and> f v = Inr y)"
  by (cases m) simp_all

lemma bind_exn_Inl_iff: "bind_exn m f = Inl e \<longleftrightarrow> m = Inl e \<or> (\<exists>v. m = Inr v \<and> f v = Inl e)"
  by (cases m) simp_all

text \<open>
  Which exceptions each part can raise: the handler of
  \<^verbatim>\<open>parse_ingredient_data\<close> names every exception that can follow a
  display name that was read.
\<close>

lemma py_get_error: "py_get v k d = Inl e \<Longrightarrow> e = AttributeError"
  by (cases v) simp_all

lemma py_lower_error: "py_lower v = Inl e \<Longrightarrow> e = AttributeError"
  by (cases v) simp_all

lemma Ingredient_init_error: "Ingredient_init cz f = Inl e \<Longrightarrow> caught e"
  by (auto simp: Ingredient_init_def split: if_splits)

lemma construct_error: "construct cz f = Inl e \<Longrightarrow> caught e"
  by (auto simp: construct_def bind_exn_Inl_iff dest: py_lower_error Ingredient_init_error)

lemma extract_fields_title:
  "extract_fields page = Inr f \<Longrightarrow> title_content (properties page) = Inr (f_name f)"
  by (auto simp: extract_fields_def Let_def bind_exn_Inr_iff)

lemma extract_fields_error:
  "title_content (properties page) = Inr v \<Longrightarrow> extract_fields page = Inl e \<Longrightarrow> e = AttributeError"
  by (auto simp: extract_fields_def Let_def select_name_def bind_exn_Inl_iff dest: py_get_error)

lemma parse_ingredient_page_error:
  "title_content (properties page) = Inr v \<Longrightarrow> parse_ingredient_page cz page = Inl e \<Longrightarrow> caught e"
  by (auto simp: parse_ingredient_page_def bind_exn_Inl_iff dest: extract_fields_error construct_error)

text \<open>
  The loop over the pages: the list it returns, and when it returns one.
\<close>

lemma entity_Inl: "parse_ingredient_page cz p = Inl e \<Longrightarrow> entity cz p = None"
  by (simp add: entity_def)

lemma entity_Inr: "parse_ingredient_page cz p = Inr i \<Longrightarrow> entity cz p = Some i"
  by (simp add: entity_def)

lemma parse_loop_titled:
  "\<forall>p\<in>set pages. \<exists>v. title_content (properties p) = Inr v \<Longrightarrow>
   fst (parse_loop cz pages ings logged) = Inr (ings @ List.map_filter (entity cz) pages)"
proof (induction pages arbitrary: ings logged)
  case Nil
  then show ?case by simp
next
  case (Cons p ps)
  then obtain v where v: "title_content (properties p) = Inr v" by auto
  show ?case
  proof (cases "parse_ingredient_page cz p")
    case (Inl e)
    then have "caught e" using v parse_ingredient_page_error by blast
    then show ?thesis using Inl v Cons by (simp add: entity_Inl)
  next
    case (Inr i)
    then show ?thesis using Inr v Cons by (simp add: entity_Inr)
  qed
qed

lemma parse_loop_returns:
  "fst (parse_loop cz pages ings logged) = Inr out \<Longrightarrow>
   out = ings @ List.map_filter (entity cz) pages"
proof (induction pages arbitrary: ings logged)
  case Nil
  then show ?case by simp
next
  case (Cons p ps)
  from Cons.prems obtain v where v: "title_content (properties p) = Inr v"
    by (cases "title_content (properties p)") simp_all
  show ?case
  proof (cases "parse_ingredient_page cz p")
    case (Inl e)
    then have "fst (parse_loop cz ps ings
                 (logged @ [Skipping_ingredient v, Exception_info e])) = Inr out"
      using Cons.prems v by (cases "caught e") simp_all
    then have "out = ings @ List.map_filter (entity cz) ps" by (rule Cons.IH)
    then show ?thesis using Inl by (simp add: entity_Inl)
  next
    case (Inr i)
    then have "fst (parse_loop cz ps (ings @ [i]) logged) = Inr out"
      using Cons.prems v by simp
    then have "out = (ings @ [i]) @ List.map_filter (entity cz) ps" by (rule Cons.IH)
    then show ?thesis using Inr by (simp add: entity_Inr)
  qed
qed

lemma parse_loop_aborts:
  "p \<in> set pages \<Longrightarrow> title_content (properties p) = Inl e \<Longrightarrow>
   \<exists>e'. fst (parse_loop cz pages ings logged) = Inl e'"
proof (induction pages arbitrary: ings logged)
  case Nil
  then show ?case by simp
next
  case (Cons q qs)
  then show ?case
    by (auto split: sum.splits if_splits)
qed

text \<open>
  The pagination loop against an endpoint that answers from a list.
\<close>

lemma pages_loop_scripted:
  "rs \<noteq> [] \<Longrightarrow> \<forall>r\<in>set (butlast rs). has_more r \<Longrightarrow> \<not> has_more (last rs) \<Longrightarrow>
   pages_loop scripted_post (map Inr rs, calls) pages True cursor =
     Some (Inr (pages @ concat (map results rs)),
           ([], calls @ map request (cursor # map next_cursor (butlast rs))))"
proof (induction rs arbitrary: calls pages cursor)
  case Nil
  then show ?case by simp
next
  case (Cons r rs)
  show ?case
  proof (cases "rs = []")
    case True
    then have "\<not> has_more r" using Cons.prems by simp
    then show ?thesis using True
      by (subst pages_loop.simps, subst pages_loop.simps)
         (simp add: get_database_page_def request_def)
  next
    case False
    then have hm: "has_more r" and rest: "\<forall>r\<in>set (butlast rs). has_more r" "\<not> has_more (last rs)"
      using Cons.prems by simp_all
    have "pages_loop scripted_post (map Inr (r # rs), calls) pages True cursor =
          pages_loop scripted_post (map Inr rs, calls @ [request cursor]) (pages @ results r) True (next_cursor r)"
      using hm by (subst pages_loop.simps) (simp add: get_database_page_def request_def)
    also have "\<dots> = Some (Inr ((pages @ results r) @ concat (map results rs)),
           ([], (calls @ [request cursor]) @ map request (next_cursor r # map next_cursor (butlast rs))))"
      using Cons.IH [OF False rest] .
    finally show ?thesis using False by simp
  qed
qed

lemma request_inj: "request c = request c' \<longleftrightarrow> c = c'"
  by (simp add: request_def)

lemma distinct_requests: "distinct (map request cs) = distinct cs"
  by (simp add: distinct_map inj_on_def request_inj)

text \<open>
  What the validators accept.
\<close>

lemma IngredientType_lookup:
  "map_of IngredientType_members s = Some m \<longleftrightarrow> s = IngredientType_str m"
  by (cases m) (auto simp: IngredientType_members_def)

lemma UnitOfMeasurement_lookup:
  "map_of UnitOfMeasurement_members s = Some m \<longleftrightarrow> s = ''grams''"
  by (cases m) (auto simp: UnitOfMeasurement_members_def)

lemma validate_enum_Inr:
  "validate_enum ms v = Inr m \<longleftrightarrow> (\<exists>s. v = JStr s \<and> map_of ms s = Some m)"
  by (cases v) (auto split: option.splits)

lemma validate_enum_error: "validate_enum ms v = Inl e \<Longrightarrow> e = enum_error"
  by (cases v) (auto split: option.splits)

declare validate_enum.simps [simp del]

lemma validate_type_accepts:
  "validate_enum IngredientType_members v = Inr m \<longleftrightarrow> v = JStr (IngredientType_str m)"
  by (auto simp: validate_enum_Inr IngredientType_lookup)

lemma validate_units_accepts:
  "validate_enum UnitOfMeasurement_members v = Inr m \<longleftrightarrow> v = JStr ''grams''"
  by (auto simp: validate_enum_Inr UnitOfMeasurement_lookup)

lemma field_errors_Nil: "field_errors fld r = [] \<longleftrightarrow> (\<exists>v. r = Inr v)"
  by (cases r) (simp_all add: field_errors_def)

lemma validate_float_number: "exact_number v \<Longrightarrow> validate_float cz v = Inr (number_value v)"
  by (cases v) simp_all

lemma validate_optional_int_value:
  "is_optional_int v \<Longrightarrow> validate_optional_int cz v = Inr (optional_int_value v)"
  by (cases v) simp_all

lemma Ingredient_init_Inr:
  "Ingredient_init cz f = Inr ing \<longleftrightarrow>
     validate_str (f_name f) = Inr (name ing) \<and>
     validate_enum IngredientType_members (f_type f) = Inr (type ing) \<and>
     validate_enum UnitOfMeasurement_members (f_units_of_measurement f) = Inr (units_of_measurement ing) \<and>
     validate_float cz (f_calories_per_100g f) = Inr (calories_per_100g ing) \<and>
     validate_float cz (f_protein_per_100g f) = Inr (protein_per_100g ing) \<and>
     validate_float cz (f_fat_per_100g f) = Inr (fat_per_100g ing) \<and>
     validate_float cz (f_carbs_per_100g f) = Inr (carbs_per_100g ing) \<and>
     validate_optional_int cz (f_shelf_life_room f) = Inr (shelf_life_room ing) \<and>
     validate_optional_int cz (f_shelf_life_fridge f) = Inr (shelf_life_fridge ing) \<and>
     validate_optional_int cz (f_shelf_life_freezer f) = Inr (shelf_life_freezer ing)"
  by (cases ing) (auto simp: Ingredient_init_def validation_errors_def field_errors_Nil)

lemma validate_str_Inr: "validate_str v = Inr s \<longleftrightarrow> v = JStr s"
  by (cases v) auto

text \<open>
  The call of the model after the unit was lowercased.
\<close>

lemma Ingredient_init_rejects:
  "(fld, e) \<in> set (validation_errors cz f) \<Longrightarrow>
   Ingredient_init cz f = Inl (ValidationError (validation_errors cz f))"
  by (auto simp: Ingredient_init_def)

lemma type_rejected:
  "\<forall>m. v \<noteq> JStr (IngredientType_str m) \<Longrightarrow>
   validate_enum IngredientType_members v = Inl enum_error"
  by (cases "validate_enum IngredientType_members v")
     (auto simp: validate_type_accepts dest: validate_enum_error)

lemma units_rejected:
  "v \<noteq> JStr ''grams'' \<Longrightarrow> validate_enum UnitOfMeasurement_members v = Inl enum_error"
  by (cases "validate_enum UnitOfMeasurement_members v")
     (auto simp: validate_units_accepts dest: validate_enum_error)

lemma construct_str:
  "f_units_of_measurement f = JStr u \<Longrightarrow>
   construct cz f = Ingredient_init cz (f\<lparr>f_units_of_measurement := JStr (str_lower u)\<rparr>)"
  by (simp add: construct_def)

lemma construct_Inr:
  "construct cz f = Inr ing \<Longrightarrow>
   \<exists>u. f_units_of_measurement f = JStr u \<and>
       Ingredient_init cz (f\<lparr>f_units_of_measurement := JStr (str_lower u)\<rparr>) = Inr ing"
  by (cases "f_units_of_measurement f") (auto simp: construct_def)

text \<open>
  Unfolding on concrete pages.
\<close>

lemmas eval_defs =
  parse_ingredient_page_def extract_fields_def title_content_def select_name_def number_def
  dict_get_def construct_def Ingredient_init_def
  validation_errors_def field_errors_def validate_enum.simps IngredientType_members_def
  UnitOfMeasurement_members_def with_property_def without_property_def

lemmas data_defs =
  chicken_def rice_def blank_def untitled_def untyped_def capital_units_def
  fractional_shelf_life_def empty_name_def no_units_def chicken_fields_def
  chicken_ingredient_def rice_ingredient_def

lemma str_lower_grams: "str_lower ''grams'' = ''grams''"
  by code_simp

lemma str_lower_GRAMS: "str_lower ''GRAMS'' = ''grams''"
  by code_simp

lemma str_lower_Litres: "str_lower ''Litres'' = ''litres''"
  by code_simp

lemmas eval_simps =
  eval_defs str_lower_grams str_lower_GRAMS str_lower_Litres float_of_int_small

lemma extract_chicken: "extract_fields chicken = Inr chicken_fields"
  by (simp add: eval_simps data_defs)

lemma parse_chicken: "parse_ingredient_page cz chicken = Inr chicken_ingredient"
  by (simp add: eval_simps data_defs)

lemma parse_rice: "parse_ingredient_page cz rice = Inr rice_ingredient"
  by (simp add: eval_simps data_defs)

text \<open>
  What \<^verbatim>\<open>parse_ingredient_data\<close> returns when it returns a list: the
  entities of the pages that gave one, in the order of the pages and each as often as its page
  occurs. It returns that list when the display name of every page can be read; and the
  entities of several batches laid end to end are the entities of each batch, laid end to end.
\<close>

lemma parse_ingredient_data_order:
  "(fst (parse_ingredient_data cz pages) = Inr out \<longrightarrow>
      out = List.map_filter (entity cz) pages)
   \<and> ((\<forall>p\<in>set pages. \<exists>v. title_content (properties p) = Inr v) \<longrightarrow>
      fst (parse_ingredient_data cz pages) = Inr (List.map_filter (entity cz) pages))
   \<and> List.map_filter (entity cz) (concat batches) =
      concat (map (List.map_filter (entity cz)) batches)"
proof (intro conjI impI)
  assume "fst (parse_ingredient_data cz pages) = Inr out"
  then show "out = List.map_filter (entity cz) pages"
    using parse_loop_returns [of cz pages "[]" "[]" out] by (simp add: parse_ingredient_data_def)
next
  assume "\<forall>p\<in>set pages. \<exists>v. title_content (properties p) = Inr v"
  then show "fst (parse_ingredient_data cz pages) = Inr (List.map_filter (entity cz) pages)"
    using parse_loop_titled [of pages cz "[]" "[]"] by (simp add: parse_ingredient_data_def)
next
  show "List.map_filter (entity cz) (concat batches) =
        concat (map (List.map_filter (entity cz)) batches)"
    by (induction batches) (simp_all add: List.map_filter_def)
qed

lemma title_chicken: "title_content (properties chicken) = Inr (JStr ''Chicken'')"
  by (simp add: eval_simps data_defs)

lemma title_rice: "title_content (properties rice) = Inr (JStr ''Rice'')"
  by (simp add: eval_simps data_defs)

lemma title_no_units: "title_content (properties no_units) = Inr (JStr ''Chicken'')"
  by (simp add: eval_simps data_defs)

lemma parse_no_units: "parse_ingredient_page cz no_units = Inl AttributeError"
  by (simp add: eval_simps data_defs)

text \<open>
  Four pages, one of them twice and one without its unit.
\<close>

lemma parse_ingredient_data_order_example:
  "fst (parse_ingredient_data no_strings [rice, chicken, no_units, chicken]) =
     Inr [rice_ingredient, chicken_ingredient, chicken_ingredient]"
proof -
  let ?pages = "[rice, chicken, no_units, chicken]"
  have t: "\<forall>p\<in>set ?pages. \<exists>v. title_content (properties p) = Inr v"
    by (simp add: title_chicken title_rice title_no_units)
  have "fst (parse_ingredient_data no_strings ?pages) =
        Inr (List.map_filter (entity no_strings) ?pages)"
    using parse_ingredient_data_order [of no_strings ?pages] t by blast
  then show ?thesis
    by (simp add: List.map_filter_def entity_def parse_chicken parse_rice parse_no_units)
qed

lemma title_untitled: "title_content (properties untitled) = Inl IndexError"
  by (simp add: eval_simps data_defs)

lemma parse_untitled: "parse_ingredient_page cz untitled = Inl IndexError"
  by (simp add: parse_ingredient_page_def extract_fields_def Let_def title_untitled)

text \<open>
  Well-shaped properties can be read.
\<close>

lemma is_dict_iff: "is_dict v \<longleftrightarrow> (\<exists>d. v = JDict d)"
  by (cases v) simp_all

lemma title_shaped_content: "title_shaped props \<Longrightarrow> \<exists>v. title_content props = Inr v"
  by (auto simp: title_shaped_def title_content_def dict_get_def is_dict_iff
      split: option.splits json.splits list.splits)

lemma select_shaped_name: "select_shaped props k \<Longrightarrow> \<exists>v. select_name props k = Inr v"
  by (auto simp: select_shaped_def select_name_def dict_get_def is_dict_iff
      split: option.splits)

text \<open>
  Reading a page after one property was replaced.
\<close>

lemma dict_get_with_property:
  "k' \<noteq> k \<Longrightarrow> dict_get (properties (with_property page k v)) k' d = dict_get (properties page) k' d"
  by (simp add: with_property_def dict_get_def)

lemma number_with_property_same:
  "number (properties (with_property page k [(''number'', x)])) k = x"
  by (simp add: with_property_def dict_get_def number_def)

lemma number_with_property_other:
  "k' \<noteq> k \<Longrightarrow> number (properties (with_property page k v)) k' = number (properties page) k'"
  by (simp add: number_def dict_get_with_property)

lemma title_with_property:
  "k \<noteq> ''Name'' \<Longrightarrow> title_content (properties (with_property page k v)) = title_content (properties page)"
  by (simp add: title_content_def dict_get_with_property)

lemma select_with_property:
  "k' \<noteq> k \<Longrightarrow> select_name (properties (with_property page k v)) k' = select_name (properties page) k'"
  by (simp add: select_name_def dict_get_with_property)

lemmas with_property_simps =
  number_with_property_same number_with_property_other title_with_property select_with_property

lemma extract_fields_with_number:
  assumes "extract_fields page = Inr f"
  shows "extract_fields (with_property page ''Calories per 100g'' [(''number'', x)]) =
           Inr (f\<lparr>f_calories_per_100g := x\<rparr>)"
    and "extract_fields (with_property page ''Protein per 100g'' [(''number'', x)]) =
           Inr (f\<lparr>f_protein_per_100g := x\<rparr>)"
    and "extract_fields (with_property page ''Fat per 100g'' [(''number'', x)]) =
           Inr (f\<lparr>f_fat_per_100g := x\<rparr>)"
    and "extract_fields (with_property page ''Carbohydrate per 100g'' [(''number'', x)]) =
           Inr (f\<lparr>f_carbs_per_100g := x\<rparr>)"
  using assms
  by (auto simp: extract_fields_def Let_def with_property_simps bind_exn_Inr_iff)

lemma construct_with_number:
  assumes "construct cz f = Inr ing" and "exact_number x"
  shows "construct cz (f\<lparr>f_calories_per_100g := x\<rparr>) =
           Inr (ing\<lparr>calories_per_100g := number_value x\<rparr>)"
    and "construct cz (f\<lparr>f_protein_per_100g := x\<rparr>) =
           Inr (ing\<lparr>protein_per_100g := number_value x\<rparr>)"
    and "construct cz (f\<lparr>f_fat_per_100g := x\<rparr>) =
           Inr (ing\<lparr>fat_per_100g := number_value x\<rparr>)"
    and "construct cz (f\<lparr>f_carbs_per_100g := x\<rparr>) =
           Inr (ing\<lparr>carbs_per_100g := number_value x\<rparr>)"
proof -
  from construct_Inr [OF assms(1)] obtain u where u: "f_units_of_measurement f = JStr u"
    and i: "Ingredient_init cz (f\<lparr>f_units_of_measurement := JStr (str_lower u)\<rparr>) = Inr ing"
    by blast
  from i have v:
    "validate_str (f_name f) = Inr (name ing)"
    "validate_enum IngredientType_members (f_type f) = Inr (type ing)"
    "validate_enum UnitOfMeasurement_members (JStr (str_lower u)) = Inr (units_of_measurement ing)"
    "validate_float cz (f_calories_per_100g f) = Inr (calories_per_100g ing)"
    "validate_float cz (f_protein_per_100g f) = Inr (protein_per_100g ing)"
    "validate_float cz (f_fat_per_100g f) = Inr (fat_per_100g ing)"
    "validate_float cz (f_carbs_per_100g f) = Inr (carbs_per_100g ing)"
    "validate_optional_int cz (f_shelf_life_room f) = Inr (shelf_life_room ing)"
    "validate_optional_int cz (f_shelf_life_fridge f) = Inr (shelf_life_fridge ing)"
    "validate_optional_int cz (f_shelf_life_freezer f) = Inr (shelf_life_freezer ing)"
    by (simp_all add: Ingredient_init_Inr)
  note x = validate_float_number [OF assms(2), of cz]
  show "construct cz (f\<lparr>f_calories_per_100g := x\<rparr>) =
           Inr (ing\<lparr>calories_per_100g := number_value x\<rparr>)"
    using u v x by (simp add: construct_def Ingredient_init_Inr)
  show "construct cz (f\<lparr>f_protein_per_100g := x\<rparr>) =
           Inr (ing\<lparr>protein_per_100g := number_value x\<rparr>)"
    using u v x by (simp add: construct_def Ingredient_init_Inr)
  show "construct cz (f\<lparr>f_fat_per_100g := x\<rparr>) =
           Inr (ing\<lparr>fat_per_100g := number_value x\<rparr>)"
    using u v x by (simp add: construct_def Ingredient_init_Inr)
  show "construct cz (f\<lparr>f_carbs_per_100g := x\<rparr>) =
           Inr (ing\<lparr>carbs_per_100g := number_value x\<rparr>)"
    using u v x by (simp add: construct_def Ingredient_init_Inr)
qed

section \<open>C1: a valid record gives the entity of its values\<close>

text \<open>
  The claim C1 asks of a record only that the seven required fields are present and the two
  enumerated ones in range. The chicken page of the tests with a shelf life of a day and a
  half has all that, and the model rejects the page:
  \<^verbatim>\<open>shelf_life_room\<close> is an \<^verbatim>\<open>int | None\<close>.
\<close>

theorem fractional_shelf_life_rejected:
  "extract_fields fractional_shelf_life = Inr (chicken_fields\<lparr>f_shelf_life_room := JFloat (3 / 2)\<rparr>)
   \<and> parse_ingredient_page no_strings fractional_shelf_life =
       Inl (ValidationError [(''shelf_life_room'', int_from_float)])"
  by code_simp

text \<open>
  C1, with every field constrained: when the values read from a page are a string for the
  name, the value of a member for the type, a string that is \<^verbatim>\<open>grams\<close>
  once lowercased for the unit, a JSON float or an integer that is a double for each per-100g
  field, and \<^verbatim>\<open>None\<close> or a JSON integer for each shelf life, then
  \<^verbatim>\<open>parse_ingredient_page\<close> returns the entity with exactly these
  values, the unit lowercased.
\<close>

theorem parse_ingredient_page_valid:
  assumes "extract_fields page = Inr f"
    and "f_name f = JStr n"
    and "f_type f = JStr (IngredientType_str t)"
    and "f_units_of_measurement f = JStr u"
    and "str_lower u = ''grams''"
    and "exact_number (f_calories_per_100g f)"
    and "exact_number (f_protein_per_100g f)"
    and "exact_number (f_fat_per_100g f)"
    and "exact_number (f_carbs_per_100g f)"
    and "is_optional_int (f_shelf_life_room f)"
    and "is_optional_int (f_shelf_life_fridge f)"
    and "is_optional_int (f_shelf_life_freezer f)"
  shows "parse_ingredient_page cz page =
           Inr \<lparr>name = n, type = t, units_of_measurement = GRAMS,
                calories_per_100g = number_value (f_calories_per_100g f),
                protein_per_100g = number_value (f_protein_per_100g f),
                fat_per_100g = number_value (f_fat_per_100g f),
                carbs_per_100g = number_value (f_carbs_per_100g f),
                shelf_life_room = optional_int_value (f_shelf_life_room f),
                shelf_life_fridge = optional_int_value (f_shelf_life_fridge f),
                shelf_life_freezer = optional_int_value (f_shelf_life_freezer f)\<rparr>
         \<and> UnitOfMeasurement_str GRAMS = str_lower u"
proof -
  have "construct cz f = Ingredient_init cz (f\<lparr>f_units_of_measurement := JStr ''grams''\<rparr>)"
    using assms(4,5) by (simp add: construct_str)
  also have "\<dots> = Inr \<lparr>name = n, type = t, units_of_measurement = GRAMS,
                calories_per_100g = number_value (f_calories_per_100g f),
                protein_per_100g = number_value (f_protein_per_100g f),
                fat_per_100g = number_value (f_fat_per_100g f),
                carbs_per_100g = number_value (f_carbs_per_100g f),
                shelf_life_room = optional_int_value (f_shelf_life_room f),
                shelf_life_fridge = optional_int_value (f_shelf_life_fridge f),
                shelf_life_freezer = optional_int_value (f_shelf_life_freezer f)\<rparr>"
    using assms(2,3,6-12)
    by (simp add: Ingredient_init_Inr validate_type_accepts validate_units_accepts
        validate_float_number validate_optional_int_value)
  finally show ?thesis using assms(1,5) by (simp add: parse_ingredient_page_def)
qed

text \<open>
  The chicken page with the unit written \<^verbatim>\<open>GRAMS\<close> satisfies the
  hypotheses.
\<close>

theorem parse_ingredient_page_valid_witness:
  "extract_fields capital_units = Inr (chicken_fields\<lparr>f_units_of_measurement := JStr ''GRAMS''\<rparr>)
   \<and> str_lower ''GRAMS'' = ''grams''
   \<and> parse_ingredient_page no_strings capital_units = Inr chicken_ingredient"
proof -
  have e: "extract_fields capital_units = Inr (chicken_fields\<lparr>f_units_of_measurement := JStr ''GRAMS''\<rparr>)"
    by (simp add: eval_simps data_defs)
  have l: "str_lower ''GRAMS'' = ''grams''"
    by (rule str_lower_GRAMS)
  show ?thesis
    using e l parse_ingredient_page_valid [OF e, of "''Chicken''" PROTEIN "''GRAMS''" no_strings]
    by (simp add: data_defs float_of_int_small)
qed

section \<open>C2: the entities of a list of records\<close>

text \<open>
  C2 has every list of records give the list of the entities that can be built from it, in
  order. From the chicken page, a page whose title is the empty list and the rice page, two
  entities can be built, in this order, and \<^verbatim>\<open>parse_ingredient_data\<close>
  returns no list: it raises the \<^verbatim>\<open>IndexError\<close> of C5.
\<close>

theorem untitled_page_loses_entities:
  "List.map_filter (entity cz) [chicken, untitled, rice] = [chicken_ingredient, rice_ingredient]
   \<and> fst (parse_ingredient_data cz [chicken, untitled, rice]) = Inl IndexError"
  by (simp add: List.map_filter_def entity_def parse_chicken parse_rice parse_untitled
      parse_ingredient_data_def title_chicken title_untitled)

section \<open>C3: one request per page of results\<close>



section \<open>C4: reading the fields of a well-shaped record\<close>

text \<open>
  The claim C4 says that reading the fields cannot fail, whatever the shape of the record. A
  page whose \<^verbatim>\<open>select\<close> is \<^verbatim>\<open>None\<close> is read as
  far as \<^verbatim>\<open>None.get("name")\<close>, which raises the
  \<^verbatim>\<open>AttributeError\<close> that the handler of
  \<^verbatim>\<open>parse_ingredient_data\<close> expects.
\<close>

theorem null_select_fails_extraction:
  "extract_fields untyped = Inl AttributeError"
  by (simp add: eval_simps data_defs)

text \<open>
  C4, for the shapes the access paths expect: when every \<^verbatim>\<open>select\<close>
  that is present is a dictionary and the \<^verbatim>\<open>title\<close>, if present, is a
  list that starts with a dictionary whose \<^verbatim>\<open>text\<close>, if present, is a
  dictionary, then reading the ten fields returns, the display name is the name read, and
  every field whose property the page does not have is \<^verbatim>\<open>None\<close>: a
  missing property is no failure here.
\<close>

theorem extract_fields_well_shaped:
  assumes "well_shaped page"
  shows "\<exists>f. extract_fields page = Inr f
           \<and> title_content (properties page) = Inr (f_name f)
           \<and> (\<forall>(k, field) \<in> set known_fields.
                 map_of (properties page) k = None \<longrightarrow> field f = JNull)"
proof -
  let ?props = "properties page"
  from assms obtain nm ty un where r:
    "title_content ?props = Inr nm"
    "select_name ?props ''Type'' = Inr ty"
    "select_name ?props ''Units of Measurement'' = Inr un"
    unfolding well_shaped_def using title_shaped_content select_shaped_name by blast
  have n: "map_of ?props ''Name'' = None \<Longrightarrow> nm = JNull"
    using r(1) by (simp add: title_content_def dict_get_def)
  have t: "map_of ?props ''Type'' = None \<Longrightarrow> ty = JNull"
    using r(2) by (simp add: select_name_def dict_get_def)
  have u: "map_of ?props ''Units of Measurement'' = None \<Longrightarrow> un = JNull"
    using r(3) by (simp add: select_name_def dict_get_def)
  have m: "\<And>k. map_of ?props k = None \<Longrightarrow> number ?props k = JNull"
    by (simp add: number_def dict_get_def)
  show ?thesis
    using r n t u m by (simp add: extract_fields_def Let_def known_fields_def)
qed

text \<open>
  A page with no property at all is well shaped, and every field read from it is
  \<^verbatim>\<open>None\<close>.
\<close>

theorem extract_fields_well_shaped_witness:
  "well_shaped blank
   \<and> title_content (properties blank) = Inr JNull
   \<and> extract_fields blank =
       Inr \<lparr>f_name = JNull, f_type = JNull, f_units_of_measurement = JNull,
            f_calories_per_100g = JNull, f_protein_per_100g = JNull, f_fat_per_100g = JNull,
            f_carbs_per_100g = JNull, f_shelf_life_room = JNull, f_shelf_life_fridge = JNull,
            f_shelf_life_freezer = JNull\<rparr>"
proof -
  have w: "well_shaped blank"
    by (simp add: well_shaped_def title_shaped_def select_shaped_def blank_def)
  from extract_fields_well_shaped [OF w]
  obtain f where "extract_fields blank = Inr f"
    and "\<forall>(k, field) \<in> set known_fields. map_of (properties blank) k = None \<longrightarrow> field f = JNull"
    by blast
  then have "extract_fields blank = Inr f"
    and "f_name f = JNull" "f_type f = JNull" "f_units_of_measurement f = JNull"
    and "f_calories_per_100g f = JNull" "f_protein_per_100g f = JNull"
    and "f_fat_per_100g f = JNull" "f_carbs_per_100g f = JNull"
    and "f_shelf_life_room f = JNull" "f_shelf_life_fridge f = JNull"
    and "f_shelf_life_freezer f = JNull"
    by (simp_all add: known_fields_def blank_def)
  then have "extract_fields blank =
       Inr \<lparr>f_name = JNull, f_type = JNull, f_units_of_measurement = JNull,
            f_calories_per_100g = JNull, f_protein_per_100g = JNull, f_fat_per_100g = JNull,
            f_carbs_per_100g = JNull, f_shelf_life_room = JNull, f_shelf_life_fridge = JNull,
            f_shelf_life_freezer = JNull\<rparr>"
    by (cases f) simp
  then show ?thesis using w extract_fields_title by fastforce
qed

section \<open>C5: a record that stops the batch\<close>

text \<open>
  C5 says that no failure of a single record stops the batch. A page whose title is the empty
  list does: \<^verbatim>\<open>page_name\<close> is computed before the
  \<^verbatim>\<open>try\<close>, \<^verbatim>\<open>[][0]\<close> raises
  \<^verbatim>\<open>IndexError\<close>, and the two valid pages around it are lost, although
  no request failed.
\<close>

theorem untitled_page_aborts_batch:
  "parse_ingredient_data cz [chicken, untitled, rice] = (Inl IndexError, [])
   \<and> get_ingredients_data cz scripted_post
       ([Inr \<lparr>results = [chicken, untitled, rice], next_cursor = None, has_more = False\<rparr>], []) =
       Some ((Inl IndexError, []), ([], [request None]))"
proof -
  have t: "title_content (properties untitled) = Inl IndexError"
    by (simp add: eval_simps data_defs)
  have a: "parse_ingredient_data cz [chicken, untitled, rice] = (Inl IndexError, [])"
    by (simp add: parse_ingredient_data_def title_chicken parse_chicken t)
  have "pages_loop scripted_post
          (map Inr [\<lparr>results = [chicken, untitled, rice], next_cursor = None, has_more = False\<rparr>], [])
          [] True None =
        Some (Inr [chicken, untitled, rice], ([], [request None]))"
    by (subst pages_loop_scripted) simp_all
  then show ?thesis using a by (simp add: get_ingredients_data_def)
qed

section \<open>C6: a record without a unit is dropped\<close>

text \<open>
  C6: when the ten fields of a page can be read and the unit read is
  \<^verbatim>\<open>None\<close>, \<^verbatim>\<open>parse_ingredient_page\<close> raises
  \<^verbatim>\<open>AttributeError\<close>, and the loop goes on to the next page with the
  same entities and two more log records: the skip message with the display name, and the
  exception.
\<close>

theorem missing_units_dropped:
  assumes "extract_fields page = Inr f"
    and "f_units_of_measurement f = JNull"
  shows "parse_ingredient_page cz page = Inl AttributeError
       \<and> parse_loop cz (page # rest) ings logged =
           parse_loop cz rest ings
             (logged @ [Skipping_ingredient (f_name f), Exception_info AttributeError])"
proof -
  have p: "parse_ingredient_page cz page = Inl AttributeError"
    using assms by (simp add: parse_ingredient_page_def construct_def)
  have "title_content (properties page) = Inr (f_name f)"
    using assms(1) by (rule extract_fields_title)
  then show ?thesis using p by simp
qed

text \<open>
  The chicken page without its unit, followed by the rice page.
\<close>

theorem missing_units_dropped_witness:
  "extract_fields no_units = Inr (chicken_fields\<lparr>f_units_of_measurement := JNull\<rparr>)
   \<and> parse_ingredient_data no_strings [no_units, rice] =
       (Inr [rice_ingredient],
        [Skipping_ingredient (JStr ''Chicken''), Exception_info AttributeError])"
proof -
  let ?f = "chicken_fields\<lparr>f_units_of_measurement := JNull\<rparr>"
  have e: "extract_fields no_units = Inr ?f"
    by (simp add: eval_simps data_defs)
  have u: "f_units_of_measurement ?f = JNull" by simp
  have "parse_loop no_strings [no_units, rice] [] [] =
        parse_loop no_strings [rice] []
          ([] @ [Skipping_ingredient (f_name ?f), Exception_info AttributeError])"
    using missing_units_dropped [OF e u, of no_strings "[rice]" "[]" "[]"] by blast
  then show ?thesis using e
    by (simp add: parse_ingredient_data_def title_rice parse_rice chicken_fields_def)
qed

section \<open>C7: membership in the two enumerations\<close>

text \<open>
  The claim C7 has every unit other than \<^verbatim>\<open>grams\<close> rejected with a
  \<^verbatim>\<open>ValidationError\<close>. The unit is lowercased before the model sees it:
  \<^verbatim>\<open>GRAMS\<close> is not the value of a member and is accepted, and a unit
  that is \<^verbatim>\<open>None\<close> raises \<^verbatim>\<open>AttributeError\<close>.
\<close>

theorem capital_units_accepted:
  "''GRAMS'' \<notin> fst ` set UnitOfMeasurement_members
   \<and> construct no_strings (chicken_fields\<lparr>f_units_of_measurement := JStr ''GRAMS''\<rparr>) =
       Inr chicken_ingredient
   \<and> construct no_strings (chicken_fields\<lparr>f_units_of_measurement := JNull\<rparr>) = Inl AttributeError"
  by (simp add: eval_simps data_defs)

text \<open>
  C7, for a unit that is a string: a type that is not the value of one of the twelve members,
  and a unit that is not \<^verbatim>\<open>grams\<close> once lowercased, each make the call
  raise a \<^verbatim>\<open>ValidationError\<close> that holds an enumeration error for that
  field.
\<close>

theorem enum_membership_checked:
  assumes "f_units_of_measurement f = JStr u"
  shows "((\<forall>m. f_type f \<noteq> JStr (IngredientType_str m)) \<longrightarrow>
            (\<exists>errs. construct cz f = Inl (ValidationError errs) \<and> (''type'', enum_error) \<in> set errs))
       \<and> (str_lower u \<noteq> ''grams'' \<longrightarrow>
            (\<exists>errs. construct cz f = Inl (ValidationError errs) \<and>
                    (''units_of_measurement'', enum_error) \<in> set errs))"
proof (intro conjI impI)
  let ?g = "f\<lparr>f_units_of_measurement := JStr (str_lower u)\<rparr>"
  assume "\<forall>m. f_type f \<noteq> JStr (IngredientType_str m)"
  then have "validate_enum IngredientType_members (f_type ?g) = Inl enum_error"
    by (simp add: type_rejected)
  then have "(''type'', enum_error) \<in> set (validation_errors cz ?g)"
    by (simp add: validation_errors_def field_errors_def)
  then show "\<exists>errs. construct cz f = Inl (ValidationError errs) \<and> (''type'', enum_error) \<in> set errs"
    using Ingredient_init_rejects construct_str [OF assms] by metis
next
  let ?g = "f\<lparr>f_units_of_measurement := JStr (str_lower u)\<rparr>"
  assume "str_lower u \<noteq> ''grams''"
  then have "validate_enum UnitOfMeasurement_members (f_units_of_measurement ?g) = Inl enum_error"
    by (simp add: units_rejected)
  then have "(''units_of_measurement'', enum_error) \<in> set (validation_errors cz ?g)"
    by (simp add: validation_errors_def field_errors_def)
  then show "\<exists>errs. construct cz f = Inl (ValidationError errs) \<and>
                    (''units_of_measurement'', enum_error) \<in> set errs"
    using Ingredient_init_rejects construct_str [OF assms] by metis
qed

text \<open>
  A type and a unit that no member has.
\<close>

theorem enum_membership_checked_witness:
  "construct no_strings
     (chicken_fields\<lparr>f_type := JStr ''Meat'', f_units_of_measurement := JStr ''Litres''\<rparr>) =
   Inl (ValidationError [(''type'', enum_error), (''units_of_measurement'', enum_error)])"
proof -
  let ?f = "chicken_fields\<lparr>f_type := JStr ''Meat'', f_units_of_measurement := JStr ''Litres''\<rparr>"
  have u: "f_units_of_measurement ?f = JStr ''Litres''" by simp
  have t: "\<forall>m. f_type ?f \<noteq> JStr (IngredientType_str m)"
  proof
    fix m show "f_type ?f \<noteq> JStr (IngredientType_str m)" by (cases m) simp_all
  qed
  have l: "str_lower ''Litres'' \<noteq> ''grams''" by (simp add: str_lower_Litres)
  from enum_membership_checked [OF u, of no_strings] t l
  obtain errs where "construct no_strings ?f = Inl (ValidationError errs)"
    and "(''type'', enum_error) \<in> set errs" by blast
  then show ?thesis by (simp add: eval_simps data_defs)
qed

section \<open>C8: the name of an entity\<close>

text \<open>
  The claim C8 has every entity carry a name that is not empty. The field is a plain
  \<^verbatim>\<open>str\<close>: the chicken page with the empty string as its title text
  gives an entity.
\<close>

theorem empty_name_accepted:
  "parse_ingredient_page no_strings empty_name = Inr (chicken_ingredient\<lparr>name := []\<rparr>)"
  by (simp add: eval_simps data_defs)

text \<open>
  C8, without the length: the name of every entity that
  \<^verbatim>\<open>parse_ingredient_page\<close> returns is the string found at
  \<^verbatim>\<open>Name\<close>, \<^verbatim>\<open>title\<close>, first element,
  \<^verbatim>\<open>text\<close>, \<^verbatim>\<open>content\<close> of the page.
\<close>

theorem name_is_title_content:
  assumes "parse_ingredient_page cz page = Inr ing"
  shows "title_content (properties page) = Inr (JStr (name ing))"
proof -
  from assms obtain f where f: "extract_fields page = Inr f" and c: "construct cz f = Inr ing"
    by (auto simp: parse_ingredient_page_def bind_exn_Inr_iff)
  from construct_Inr [OF c] have "validate_str (f_name f) = Inr (name ing)"
    by (auto simp: Ingredient_init_Inr)
  then have "f_name f = JStr (name ing)" by (simp add: validate_str_Inr)
  then show ?thesis using extract_fields_title [OF f] by simp
qed

text \<open>
  The chicken page.
\<close>

theorem name_is_title_content_witness:
  "parse_ingredient_page no_strings chicken = Inr chicken_ingredient
   \<and> title_content (properties chicken) = Inr (JStr ''Chicken'')"
proof -
  have p: "parse_ingredient_page no_strings chicken = Inr chicken_ingredient"
    by (rule parse_chicken)
  show ?thesis using p name_is_title_content [OF p] by (simp add: chicken_ingredient_def)
qed

section \<open>C9: the requests follow the cursors\<close>

text \<open>
  The claim C9 has no request sent twice, whatever the responses. The loop keeps no record of
  what it asked for: when a response has \<^verbatim>\<open>has_more\<close> true and no
  cursor, the request without a cursor is sent again.
\<close>

theorem null_cursor_refetched:
  "get_ingredients_data no_strings scripted_post
     ([Inr \<lparr>results = [chicken], next_cursor = None, has_more = True\<rparr>,
       Inr \<lparr>results = [rice], next_cursor = None, has_more = False\<rparr>], []) =
   Some ((Inr [chicken_ingredient, rice_ingredient], []), ([], [request None, request None]))"
proof -
  let ?rs = "[\<lparr>results = [chicken], next_cursor = None, has_more = True\<rparr>,
              \<lparr>results = [rice], next_cursor = None, has_more = False\<rparr>]"
  have "pages_loop scripted_post (map Inr ?rs, []) [] True None =
        Some (Inr ([] @ concat (map results ?rs)),
              ([], [] @ map request (None # map next_cursor (butlast ?rs))))"
    by (rule pages_loop_scripted) simp_all
  then show ?thesis
    by (simp add: get_ingredients_data_def parse_ingredient_data_def
        title_chicken title_rice parse_chicken parse_rice)
qed

text \<open>
  C9, for an endpoint whose cursors differ: with any number of responses of which only the
  last has \<^verbatim>\<open>has_more\<close> false,
  \<^verbatim>\<open>get_ingredients_data\<close> returns after sending the request without a
  cursor and then the cursors of the responses before the last, in order; when these cursors
  are present and pairwise distinct, no two requests are equal.
\<close>

theorem requests_follow_cursors:
  assumes "rs \<noteq> []"
    and "\<forall>r\<in>set (butlast rs). has_more r"
    and "\<not> has_more (last rs)"
    and "distinct (map next_cursor (butlast rs))"
    and "\<forall>r\<in>set (butlast rs). next_cursor r \<noteq> None"
  shows "\<exists>out calls.
           get_ingredients_data cz scripted_post (map Inr rs, []) = Some (out, ([], calls))
         \<and> map start_cursor calls = None # map next_cursor (butlast rs)
         \<and> distinct calls"
proof -
  let ?cs = "None # map next_cursor (butlast rs)"
  have g: "get_ingredients_data cz scripted_post (map Inr rs, []) =
          Some (parse_ingredient_data cz (concat (map results rs)), ([], map request ?cs))"
    using assms(1-3) by (simp add: get_ingredients_data_def pages_loop_scripted)
  have m: "map start_cursor (map request ?cs) = ?cs"
    by (simp add: request_def comp_def)
  have "distinct ?cs"
    using assms(4,5) by auto
  then have d: "distinct (map request ?cs)"
    by (simp only: distinct_requests)
  show ?thesis
  proof (intro exI conjI)
    show "get_ingredients_data cz scripted_post (map Inr rs, []) =
          Some (parse_ingredient_data cz (concat (map results rs)), ([], map request ?cs))"
      by (rule g)
    show "map start_cursor (map request ?cs) = ?cs" by (rule m)
    show "distinct (map request ?cs)" by (rule d)
  qed
qed

text \<open>
  Three responses with the cursors \<^verbatim>\<open>a\<close> and
  \<^verbatim>\<open>b\<close>.
\<close>

theorem requests_follow_cursors_witness:
  "\<exists>out calls.
     get_ingredients_data no_strings scripted_post
       ([Inr \<lparr>results = [chicken], next_cursor = Some ''a'', has_more = True\<rparr>,
         Inr \<lparr>results = [], next_cursor = Some ''b'', has_more = True\<rparr>,
         Inr \<lparr>results = [rice], next_cursor = None, has_more = False\<rparr>], []) =
       Some (out, ([], calls))
     \<and> map start_cursor calls = [None, Some ''a'', Some ''b'']
     \<and> distinct calls"
proof -
  let ?rs = "[\<lparr>results = [chicken], next_cursor = Some ''a'', has_more = True\<rparr>,
              \<lparr>results = [], next_cursor = Some ''b'', has_more = True\<rparr>,
              \<lparr>results = [rice], next_cursor = None, has_more = False\<rparr>]"
  have 1: "?rs \<noteq> []" by simp
  have 2: "\<forall>r\<in>set (butlast ?rs). has_more r" by simp
  have 3: "\<not> has_more (last ?rs)" by simp
  have 4: "distinct (map next_cursor (butlast ?rs))" by simp
  have 5: "\<forall>r\<in>set (butlast ?rs). next_cursor r \<noteq> None" by simp
  show ?thesis
    using requests_follow_cursors [OF 1 2 3 4 5, of no_strings] by simp
qed

section \<open>C10: the per-100g fields have no lower bound\<close>

text \<open>
  The claim C10 has every negative value accepted and kept. The field is a
  \<^verbatim>\<open>float\<close> and an integer is converted: the negative integer
  \<^verbatim>\<open>-10**400\<close> is beyond the doubles and is rejected, and
  \<^verbatim>\<open>-(2**53 + 1)\<close> is stored as the double next to it.
\<close>

theorem huge_negative_rejected:
  "parse_ingredient_page no_strings
     (with_property chicken ''Calories per 100g'' [(''number'', JInt (- huge))]) =
     Inl (ValidationError [(''calories_per_100g'', float_type)])
   \<and> parse_ingredient_page no_strings
        (with_property chicken ''Calories per 100g'' [(''number'', JInt (- beyond_exact))]) =
      Inr (chicken_ingredient\<lparr>calories_per_100g := - (2 ^ 53)\<rparr>)
   \<and> rat_of_int (- beyond_exact) \<noteq> - (2 ^ 53)"
  by (simp add: eval_simps data_defs float_of_int_huge float_of_int_beyond_exact)
     (simp add: beyond_exact_def)

text \<open>
  C10, for the numbers a float holds: when a page gives an entity, the page with any JSON
  float, or any integer that is a double, of any sign, as one of its four per-100g properties
  gives the same entity with that number in the field.
\<close>

theorem per_100g_not_range_checked:
  assumes "parse_ingredient_page cz page = Inr ing"
    and "exact_number x"
  shows "parse_ingredient_page cz (with_property page ''Calories per 100g'' [(''number'', x)]) =
           Inr (ing\<lparr>calories_per_100g := number_value x\<rparr>)
       \<and> parse_ingredient_page cz (with_property page ''Protein per 100g'' [(''number'', x)]) =
           Inr (ing\<lparr>protein_per_100g := number_value x\<rparr>)
       \<and> parse_ingredient_page cz (with_property page ''Fat per 100g'' [(''number'', x)]) =
           Inr (ing\<lparr>fat_per_100g := number_value x\<rparr>)
       \<and> parse_ingredient_page cz (with_property page ''Carbohydrate per 100g'' [(''number'', x)]) =
           Inr (ing\<lparr>carbs_per_100g := number_value x\<rparr>)"
proof -
  from assms(1) obtain f where f: "extract_fields page = Inr f" and c: "construct cz f = Inr ing"
    by (auto simp: parse_ingredient_page_def bind_exn_Inr_iff)
  show ?thesis
    by (simp add: parse_ingredient_page_def extract_fields_with_number [OF f]
        construct_with_number [OF c assms(2)])
qed

text \<open>
  The chicken page with minus two and a half calories, and with no fat.
\<close>

theorem per_100g_not_range_checked_witness:
  "parse_ingredient_page no_strings
     (with_property chicken ''Calories per 100g'' [(''number'', JFloat (- 5 / 2))]) =
     Inr (chicken_ingredient\<lparr>calories_per_100g := - 5 / 2\<rparr>)
   \<and> parse_ingredient_page no_strings
        (with_property chicken ''Fat per 100g'' [(''number'', JInt 0)]) =
      Inr (chicken_ingredient\<lparr>fat_per_100g := 0\<rparr>)"
proof -
  have p: "parse_ingredient_page no_strings chicken = Inr chicken_ingredient"
    by (rule parse_chicken)
  have a: "exact_number (JFloat (- 5 / 2))" by simp
  have b: "exact_number (JInt 0)" by (simp add: float_of_int_small)
  show ?thesis
    using per_100g_not_range_checked [OF p a] per_100g_not_range_checked [OF p b] by simp
qed

end
